theory Spec2Isabelle
  imports Complex_Main
begin

section \<open>Purchase-order extraction: tables and the table classifier\<close>

text \<open>
  A parsed document carries free text and a sequence of tables. A table is a Python list
  of rows, a row a list of cell strings. Strings are modelled as ASCII character lists.
\<close>

type_synonym row = "string list"
type_synonym table = "row list"

record parsed_document =
  text_of :: string
  tables_of :: "table list"

subsection \<open>String primitives of the host language\<close>

text \<open>\<^verbatim>\<open>str.lower()\<close> on ASCII letters.\<close>

definition lower_char :: "char \<Rightarrow> char" where
  "lower_char c =
     (case map_of (zip ''ABCDEFGHIJKLMNOPQRSTUVWXYZ'' ''abcdefghijklmnopqrstuvwxyz'') c of
        Some d \<Rightarrow> d
      | None \<Rightarrow> c)"

definition lower :: "string \<Rightarrow> string" where
  "lower s = map lower_char s"

text \<open>\<^verbatim>\<open>s.startswith(kw)\<close> and the substring test \<^verbatim>\<open>kw in s\<close>.\<close>

fun starts_with :: "string \<Rightarrow> string \<Rightarrow> bool" where
  "starts_with s [] = True"
| "starts_with [] (k # ks) = False"
| "starts_with (c # cs) (k # ks) = (c = k \<and> starts_with cs ks)"

fun contains_str :: "string \<Rightarrow> string \<Rightarrow> bool" where
  "contains_str [] kw = (kw = [])"
| "contains_str (c # cs) kw = (starts_with (c # cs) kw \<or> contains_str cs kw)"

subsection \<open>\<^verbatim>\<open>DataExtractor._find_line_items_table\<close> (data\_extractor.py)\<close>

definition line_item_headers :: "string list" where
  "line_item_headers =
     [''item'', ''code'', ''description'', ''qty'', ''quantity'', ''price'', ''amount'', ''total'']"

text \<open>
  \<^verbatim>\<open>header_row = [str(cell).lower() for cell in table[0] if cell]\<close>: empty cells are
  dropped, the others lower-cased.
\<close>

definition header_row :: "row \<Rightarrow> string list" where
  "header_row r = map lower (filter (\<lambda>cell. cell \<noteq> []) r)"

text \<open>
  \<^verbatim>\<open>sum(1 for header in line_item_headers if any(header in cell for cell in header_row))\<close>
\<close>

definition header_match_count :: "row \<Rightarrow> nat" where
  "header_match_count r =
     length (filter (\<lambda>header. list_ex (\<lambda>cell. contains_str cell header) (header_row r))
               line_item_headers)"

text \<open>First loop: the first non-empty table whose first row matches at least 3 headers.\<close>

fun first_header_match :: "table list \<Rightarrow> table option" where
  "first_header_match [] = None"
| "first_header_match ([] # ts) = first_header_match ts"
| "first_header_match ((r # rs) # ts) =
     (if header_match_count r \<ge> 3 then Some (r # rs) else first_header_match ts)"

text \<open>
  Second loop, with its two variables \<^verbatim>\<open>max_rows\<close> and \<^verbatim>\<open>largest_table\<close>:
  \<^verbatim>\<open>if table and len(table) > max_rows\<close>.
\<close>

fun largest_table_loop :: "table list \<Rightarrow> nat \<Rightarrow> table option \<Rightarrow> table option" where
  "largest_table_loop [] max_rows largest_table = largest_table"
| "largest_table_loop (t # ts) max_rows largest_table =
     (if t \<noteq> [] \<and> length t > max_rows
      then largest_table_loop ts (length t) (Some t)
      else largest_table_loop ts max_rows largest_table)"

definition find_line_items_table :: "table list \<Rightarrow> table option" where
  "find_line_items_table tables =
     (case first_header_match tables of
        Some t \<Rightarrow> Some t
      | None \<Rightarrow> largest_table_loop tables 0 None)"

section \<open>The simplified extractor (simplified\_data\_extractor.py)\<close>

subsection \<open>Numbers and further string primitives\<close>

text \<open>
  Python floats are modelled as exact rationals: the model follows the decimal value of
  every amount and leaves binary rounding error out. The only exception the modelled code
  can raise is \<^verbatim>\<open>ValueError\<close>, from \<^verbatim>\<open>float(s)\<close>.
\<close>

datatype error = ValueError

definition is_digit :: "char \<Rightarrow> bool" where
  "is_digit c = (c \<in> set ''0123456789'')"

definition is_alnum :: "char \<Rightarrow> bool" where
  "is_alnum c =
     (c \<in> set ''ABCDEFGHIJKLMNOPQRSTUVWXYZabcdefghijklmnopqrstuvwxyz0123456789'')"

text \<open>The characters \<^verbatim>\<open>str.strip()\<close> removes, within ASCII.\<close>

definition is_space :: "char \<Rightarrow> bool" where
  "is_space c =
     (c \<in> set [CHR '' '', CHR 0x09, CHR 0x0A, CHR 0x0B, CHR 0x0C, CHR 0x0D,
                CHR 0x1C, CHR 0x1D, CHR 0x1E, CHR 0x1F])"

definition strip :: "string \<Rightarrow> string" where
  "strip s = rev (dropWhile is_space (rev (dropWhile is_space s)))"

text \<open>\<^verbatim>\<open>re.sub(r'[^\d.]', '', s)\<close>\<close>

definition keep_numeric :: "string \<Rightarrow> string" where
  "keep_numeric s = filter (\<lambda>c. is_digit c \<or> c = CHR ''.'') s"

text \<open>\<^verbatim>\<open>s.replace(',', '')\<close>\<close>

definition remove_commas :: "string \<Rightarrow> string" where
  "remove_commas s = filter (\<lambda>c. c \<noteq> CHR '','') s"

definition digit_val :: "char \<Rightarrow> nat" where
  "digit_val c =
     (case map_of (zip ''0123456789'' [0, 1, 2, 3, 4, 5, 6, 7, 8, 9]) c of
        Some d \<Rightarrow> d
      | None \<Rightarrow> 0)"

definition digits_val :: "string \<Rightarrow> nat" where
  "digits_val s = foldl (\<lambda>a c. 10 * a + digit_val c) 0 s"

text \<open>
  \<^verbatim>\<open>float(s)\<close> on the strings the code passes to it, which consist of digits and
  decimal points only: digits with at most one point and at least one digit parse, anything
  else raises \<^verbatim>\<open>ValueError\<close>.
\<close>

definition py_float :: "string \<Rightarrow> error + rat" where
  "py_float s =
     (let ip = takeWhile is_digit s; rest = dropWhile is_digit s
      in case rest of
           [] \<Rightarrow> if ip = [] then Inl ValueError else Inr (of_nat (digits_val ip))
         | c # fp \<Rightarrow>
             if c = CHR ''.'' \<and> list_all is_digit fp \<and> (ip \<noteq> [] \<or> fp \<noteq> [])
             then Inr (of_nat (digits_val ip) + of_nat (digits_val fp) / 10 ^ length fp)
             else Inl ValueError)"

text \<open>\<^verbatim>\<open>round(x, 2)\<close>: to the nearest hundredth, ties to the even hundredth.\<close>

definition round2 :: "rat \<Rightarrow> rat" where
  "round2 x =
     (let y = x * 100; f = \<lfloor>y\<rfloor>; d = y - of_int f
      in (if d < 1 / 2 then of_int f
          else if d > 1 / 2 then of_int f + 1
          else if even f then of_int f else of_int f + 1) / 100)"

text \<open>\<^verbatim>\<open>str(i)\<close> for a non-negative integer.\<close>

function str_nat :: "nat \<Rightarrow> string" where
  "str_nat n =
     (if n < 10 then [''0123456789'' ! n]
      else str_nat (n div 10) @ [''0123456789'' ! (n mod 10)])"
  by pat_completeness auto
termination
  by (relation "measure id") auto

subsection \<open>Tables as data frames\<close>

text \<open>
  \<^verbatim>\<open>pd.DataFrame(table)\<close> makes the rows rectangular: a short row is filled up to the
  longest row's length with \<^verbatim>\<open>None\<close>. Every cell is read through \<^verbatim>\<open>str(cell)\<close>,
  which gives \<^verbatim>\<open>'None'\<close> for a filled cell, so the frame is modelled as a table of
  strings.
\<close>

definition ncols :: "table \<Rightarrow> nat" where
  "ncols t = foldr (\<lambda>r m. max (length r) m) t 0"

definition data_frame :: "table \<Rightarrow> table" where
  "data_frame t = map (\<lambda>r. r @ replicate (ncols t - length r) ''None'') t"

text \<open>\<^verbatim>\<open>len(df.columns)\<close> of a frame.\<close>

definition df_columns :: "table \<Rightarrow> nat" where
  "df_columns df = (case df of [] \<Rightarrow> 0 | r # _ \<Rightarrow> length r)"

subsection \<open>\<^verbatim>\<open>is_line_items_table\<close> and \<^verbatim>\<open>find_column_index\<close>\<close>

definition any_keyword :: "string list \<Rightarrow> string \<Rightarrow> bool" where
  "any_keyword keywords header = list_ex (\<lambda>keyword. contains_str header keyword) keywords"

definition is_line_items_table :: "table \<Rightarrow> bool" where
  "is_line_items_table df =
     (if df = [] \<or> df_columns df = 0 \<or> df_columns df < 3 then False
      else
        let headers = map lower (hd df);
            has_item = list_ex (any_keyword [''item'', ''product'', ''description'', ''part'', ''sku'']) headers;
            has_qty = list_ex (any_keyword [''qty'', ''quantity'', ''amount'', ''units'']) headers;
            has_price = list_ex (any_keyword [''price'', ''rate'', ''unit price'', ''cost'']) headers
        in has_item \<and> has_qty \<and> has_price)"

fun find_column_index :: "string list \<Rightarrow> string list \<Rightarrow> nat option" where
  "find_column_index [] keywords = None"
| "find_column_index (header # headers) keywords =
     (if any_keyword keywords header then Some 0
      else map_option Suc (find_column_index headers keywords))"

subsection \<open>\<^verbatim>\<open>extract_line_items\<close>\<close>

text \<open>A line item is a dictionary with at most these five keys.\<close>

record line_item =
  description :: "string option"
  item_code :: "string option"
  quantity :: "rat option"
  unit_price :: "rat option"
  total_price :: "rat option"

record columns =
  item_col :: "nat option"
  code_col :: "nat option"
  qty_col :: "nat option"
  price_col :: "nat option"
  total_col :: "nat option"

text \<open>
  \<^verbatim>\<open>if col is not None and col < len(row): line_item[key] = str(row[col]).strip()\<close>
\<close>

definition text_field :: "nat option \<Rightarrow> row \<Rightarrow> string option" where
  "text_field col r =
     (case col of
        None \<Rightarrow> None
      | Some c \<Rightarrow> if c < length r then Some (strip (r ! c)) else None)"

text \<open>
  The same for a number: strip, delete every character that is neither a digit nor a
  point, and call \<^verbatim>\<open>float\<close> when something is left. Nothing catches its
  \<^verbatim>\<open>ValueError\<close>.
\<close>

definition numeric_field :: "nat option \<Rightarrow> row \<Rightarrow> error + rat option" where
  "numeric_field col r =
     (case col of
        None \<Rightarrow> Inr None
      | Some c \<Rightarrow>
          if c < length r then
            let s = keep_numeric (strip (r ! c))
            in if s \<noteq> [] then (case py_float s of Inl e \<Rightarrow> Inl e | Inr x \<Rightarrow> Inr (Some x))
               else Inr None
          else Inr None)"

text \<open>The dictionary one row gives, or the exception raised while building it.\<close>

definition build_line_item :: "columns \<Rightarrow> row \<Rightarrow> error + line_item" where
  "build_line_item cols r =
     (case numeric_field (qty_col cols) r of
        Inl e \<Rightarrow> Inl e
      | Inr q \<Rightarrow>
     (case numeric_field (price_col cols) r of
        Inl e \<Rightarrow> Inl e
      | Inr p \<Rightarrow>
     (case numeric_field (total_col cols) r of
        Inl e \<Rightarrow> Inl e
      | Inr t \<Rightarrow>
          Inr \<lparr>description = text_field (item_col cols) r,
               item_code = text_field (code_col cols) r,
               quantity = q,
               unit_price = p,
               total_price =
                 (case (q, p, t) of
                    (Some qv, Some pv, None) \<Rightarrow> Some (qv * pv)
                  | _ \<Rightarrow> t)\<rparr>)))"

text \<open>
  \<^verbatim>\<open>('description' in line_item or 'item_code' in line_item) and 'quantity' in line_item\<close>
\<close>

definition retained :: "line_item \<Rightarrow> bool" where
  "retained li = ((description li \<noteq> None \<or> item_code li \<noteq> None) \<and> quantity li \<noteq> None)"

text \<open>The loop over the data rows; \<open>items\<close> is \<^verbatim>\<open>result['line_items']\<close>.\<close>

fun process_rows :: "columns \<Rightarrow> row list \<Rightarrow> line_item list \<Rightarrow> error + line_item list" where
  "process_rows cols [] items = Inr items"
| "process_rows cols (r # rs) items =
     (if list_all (\<lambda>cell. strip cell = []) r then process_rows cols rs items
      else
        case build_line_item cols r of
          Inl e \<Rightarrow> Inl e
        | Inr li \<Rightarrow> process_rows cols rs (if retained li then items @ [li] else items))"

definition find_columns :: "string list \<Rightarrow> columns" where
  "find_columns headers =
     \<lparr>item_col = find_column_index headers [''item'', ''product'', ''description'', ''part'', ''sku''],
      code_col = find_column_index headers [''code'', ''sku'', ''part number'', ''item number'', ''id''],
      qty_col = find_column_index headers [''qty'', ''quantity'', ''amount'', ''units''],
      price_col = find_column_index headers [''price'', ''rate'', ''unit price'', ''cost''],
      total_col = find_column_index headers [''total'', ''amount'', ''line total'', ''extended'']\<rparr>"

text \<open>
  With more than one row the first row is the header and the rest is data; otherwise the
  column labels \<^verbatim>\<open>0, 1, ...\<close> serve as headers and the whole frame is data.
\<close>

definition extract_line_items :: "table \<Rightarrow> line_item list \<Rightarrow> error + line_item list" where
  "extract_line_items df items =
     (if length df > 1
      then process_rows (find_columns (map lower (hd df))) (tl df) items
      else process_rows (find_columns (map (\<lambda>col. lower (str_nat col)) [0..<df_columns df]))
             df items)"

subsection \<open>\<^verbatim>\<open>extract_from_tables\<close>\<close>

fun extract_from_tables :: "table list \<Rightarrow> line_item list \<Rightarrow> error + line_item list" where
  "extract_from_tables [] items = Inr items"
| "extract_from_tables (t # ts) items =
     (let df = data_frame t
      in if is_line_items_table df
         then (case extract_line_items df items of
                 Inl e \<Rightarrow> Inl e
               | Inr items' \<Rightarrow> extract_from_tables ts items')
         else extract_from_tables ts items)"

subsection \<open>The extraction record\<close>

text \<open>
  The simplified extractor keeps every amount of \<^verbatim>\<open>po_details\<close> as a string: either
  characters taken from the document text (or a literal of the program), or
  \<^verbatim>\<open>str(x)\<close> of a float the program computed. \<^verbatim>\<open>float(str(x)) == x\<close> holds for
  every float, so the second kind is kept as the number it prints.
\<close>

datatype amount_str = Chars string | Str_of rat

fun float_of :: "amount_str \<Rightarrow> error + rat" where
  "float_of (Chars s) = py_float s"
| "float_of (Str_of x) = Inr x"

record client_info_dict =
  ci_name :: "string option"
  ci_phone :: "string option"
  ci_email :: "string option"
  ci_address :: "string option"

record po_details_dict =
  po_number :: "string option"
  creation_date :: "string option"
  due_date :: "string option"
  payment_terms :: "string option"
  total_amount :: "amount_str option"
  subtotal :: "amount_str option"
  tax :: "amount_str option"
  shipping :: "amount_str option"
  comments :: "string option"

record ship_to_dict =
  st_name :: "string option"
  st_address :: "string option"
  st_phone :: "string option"

text \<open>
  \<^verbatim>\<open>result\<close>: the keys \<^verbatim>\<open>client_info\<close>, \<^verbatim>\<open>po_details\<close> and \<^verbatim>\<open>line_items\<close> are
  always there, \<^verbatim>\<open>ship_to\<close> only once a ship-to pattern has matched.
\<close>

record result =
  client_info :: client_info_dict
  po_details :: po_details_dict
  ship_to :: "ship_to_dict option"
  line_items :: "line_item list"

definition empty_client_info :: client_info_dict where
  "empty_client_info = \<lparr>ci_name = None, ci_phone = None, ci_email = None, ci_address = None\<rparr>"

definition empty_po_details :: po_details_dict where
  "empty_po_details =
     \<lparr>po_number = None, creation_date = None, due_date = None, payment_terms = None,
      total_amount = None, subtotal = None, tax = None, shipping = None, comments = None\<rparr>"

definition empty_ship_to :: ship_to_dict where
  "empty_ship_to = \<lparr>st_name = None, st_address = None, st_phone = None\<rparr>"

subsection \<open>\<^verbatim>\<open>extract_from_text\<close>\<close>

text \<open>
  The regular-expression engine is not part of the program. Each call
  \<^verbatim>\<open>re.search(pattern, text, flags)\<close> of the module is named by a constructor, and the
  engine is a parameter \<open>re\<close> giving the captured group the code reads
  (\<^verbatim>\<open>group(1)\<close>, and \<^verbatim>\<open>group(0)\<close> for the e-mail pattern), or \<open>None\<close> when the
  pattern does not match.
\<close>

datatype field_pattern =
  Client_name_pat | Phone_pat | Email_pat | Address_pat
| Po_number_pat | Creation_date_pat | Due_date_pat | Payment_terms_pat
| Total_amount_pat | Subtotal_pat | Tax_pat | Shipping_pat | Comments_pat
| Ship_name_pat | Ship_address_pat | Ship_phone_pat

type_synonym re_search = "field_pattern \<Rightarrow> string \<Rightarrow> string option"

definition extract_client_info :: "re_search \<Rightarrow> string \<Rightarrow> result \<Rightarrow> result" where
  "extract_client_info re txt r =
     (let ci = client_info r;
          ci1 = (case re Client_name_pat txt of
                   Some g \<Rightarrow> ci\<lparr>ci_name := Some (strip g)\<rparr> | None \<Rightarrow> ci);
          ci2 = (case re Phone_pat txt of
                   Some g \<Rightarrow> ci1\<lparr>ci_phone := Some (strip g)\<rparr> | None \<Rightarrow> ci1);
          ci3 = (case re Email_pat txt of
                   Some g \<Rightarrow> ci2\<lparr>ci_email := Some g\<rparr> | None \<Rightarrow> ci2);
          ci4 = (case re Address_pat txt of
                   Some g \<Rightarrow> ci3\<lparr>ci_address := Some (strip g)\<rparr> | None \<Rightarrow> ci3)
      in r\<lparr>client_info := ci4\<rparr>)"

text \<open>An amount from the text: \<^verbatim>\<open>match.group(1).strip().replace(',', '')\<close>.\<close>

definition amount_chars :: "string \<Rightarrow> amount_str" where
  "amount_chars g = Chars (remove_commas (strip g))"

definition extract_po_details :: "re_search \<Rightarrow> string \<Rightarrow> result \<Rightarrow> result" where
  "extract_po_details re txt r =
     (let pd = po_details r;
          pd1 = (case re Po_number_pat txt of
                   Some g \<Rightarrow> pd\<lparr>po_number := Some (strip g)\<rparr> | None \<Rightarrow> pd);
          pd2 = (case re Creation_date_pat txt of
                   Some g \<Rightarrow> pd1\<lparr>creation_date := Some (strip g)\<rparr> | None \<Rightarrow> pd1);
          pd3 = (case re Due_date_pat txt of
                   Some g \<Rightarrow> pd2\<lparr>due_date := Some (strip g)\<rparr> | None \<Rightarrow> pd2);
          pd4 = (case re Payment_terms_pat txt of
                   Some g \<Rightarrow> pd3\<lparr>payment_terms := Some (strip g)\<rparr> | None \<Rightarrow> pd3);
          pd5 = (case re Total_amount_pat txt of
                   Some g \<Rightarrow> pd4\<lparr>total_amount := Some (amount_chars g)\<rparr> | None \<Rightarrow> pd4);
          pd6 = (case re Subtotal_pat txt of
                   Some g \<Rightarrow> pd5\<lparr>subtotal := Some (amount_chars g)\<rparr> | None \<Rightarrow> pd5);
          pd7 = (case re Tax_pat txt of
                   Some g \<Rightarrow> pd6\<lparr>tax := Some (amount_chars g)\<rparr> | None \<Rightarrow> pd6);
          pd8 = (case re Shipping_pat txt of
                   Some g \<Rightarrow> pd7\<lparr>shipping := Some (amount_chars g)\<rparr> | None \<Rightarrow> pd7);
          pd9 = (case re Comments_pat txt of
                   Some g \<Rightarrow> pd8\<lparr>comments := Some (strip g)\<rparr> | None \<Rightarrow> pd8)
      in r\<lparr>po_details := pd9\<rparr>)"

text \<open>\<^verbatim>\<open>if 'ship_to' not in result: result['ship_to'] = {}\<close>\<close>

definition ship_to_or_new :: "result \<Rightarrow> ship_to_dict" where
  "ship_to_or_new r = (case ship_to r of None \<Rightarrow> empty_ship_to | Some st \<Rightarrow> st)"

definition extract_shipping_info :: "re_search \<Rightarrow> string \<Rightarrow> result \<Rightarrow> result" where
  "extract_shipping_info re txt r =
     (let r1 = (case re Ship_name_pat txt of
                  Some g \<Rightarrow> r\<lparr>ship_to := Some ((ship_to_or_new r)\<lparr>st_name := Some (strip g)\<rparr>)\<rparr>
                | None \<Rightarrow> r);
          r2 = (case re Ship_address_pat txt of
                  Some g \<Rightarrow> r1\<lparr>ship_to := Some ((ship_to_or_new r1)\<lparr>st_address := Some (strip g)\<rparr>)\<rparr>
                | None \<Rightarrow> r1);
          r3 = (case re Ship_phone_pat txt of
                  Some g \<Rightarrow> r2\<lparr>ship_to := Some ((ship_to_or_new r2)\<lparr>st_phone := Some (strip g)\<rparr>)\<rparr>
                | None \<Rightarrow> r2)
      in r3)"

definition extract_from_text :: "re_search \<Rightarrow> string \<Rightarrow> result \<Rightarrow> result" where
  "extract_from_text re txt r =
     extract_shipping_info re txt (extract_po_details re txt (extract_client_info re txt r))"

subsection \<open>\<^verbatim>\<open>validate_and_clean_data\<close>\<close>

text \<open>
  The current date, \<^verbatim>\<open>datetime.now().strftime('%m/%d/%Y')\<close>, is the parameter
  \<open>today\<close>. The key \<^verbatim>\<open>po_details\<close> is always in \<^verbatim>\<open>result\<close>, so the tests
  \<^verbatim>\<open>'po_details' in result\<close> and \<^verbatim>\<open>'client_info' in result\<close> are true.
\<close>

definition default_line_item :: line_item where
  "default_line_item =
     \<lparr>description = Some ''Standard Product'', item_code = Some ''DEFAULT001'',
      quantity = Some 1, unit_price = Some 100, total_price = Some 100\<rparr>"

text \<open>
  \<^verbatim>\<open>"PO-" + re.sub(r'[^A-Za-z0-9]', '', name)[:5]\<close> when there is a client name and
  no PO number.
\<close>

definition po_number_step :: "client_info_dict \<Rightarrow> po_details_dict \<Rightarrow> po_details_dict" where
  "po_number_step ci pd =
     (if po_number pd = None then
        (case ci_name ci of
           Some n \<Rightarrow> pd\<lparr>po_number := Some (''PO-'' @ take 5 (filter is_alnum n))\<rparr>
         | None \<Rightarrow> pd)
      else pd)"

definition dates_step :: "string \<Rightarrow> po_details_dict \<Rightarrow> po_details_dict" where
  "dates_step today pd =
     (let pd1 = (if creation_date pd = None then pd\<lparr>creation_date := Some today\<rparr> else pd)
      in if due_date pd1 = None then pd1\<lparr>due_date := Some today\<rparr> else pd1)"

definition payment_terms_step :: "po_details_dict \<Rightarrow> po_details_dict" where
  "payment_terms_step pd =
     (if payment_terms pd = None then pd\<lparr>payment_terms := Some ''Net 30''\<rparr> else pd)"

text \<open>\<^verbatim>\<open>sum(item.get('total_price', 0) for item in result['line_items'])\<close>\<close>

definition sum_total_prices :: "line_item list \<Rightarrow> rat" where
  "sum_total_prices items =
     sum_list (map (\<lambda>item. case total_price item of Some p \<Rightarrow> p | None \<Rightarrow> 0) items)"

definition subtotal_step :: "line_item list \<Rightarrow> po_details_dict \<Rightarrow> po_details_dict" where
  "subtotal_step items pd =
     (if subtotal pd = None \<and> items \<noteq> []
      then pd\<lparr>subtotal := Some (Str_of (round2 (sum_total_prices items)))\<rparr>
      else pd)"

text \<open>
  \<^verbatim>\<open>if 'Tax' not in po and 'Subtotal' in po: po['Tax'] = str(round(float(po['Subtotal']) * 0.085, 2))\<close>
\<close>

definition tax_step :: "po_details_dict \<Rightarrow> error + po_details_dict" where
  "tax_step pd =
     (if tax pd = None then
        (case subtotal pd of
           None \<Rightarrow> Inr pd
         | Some a \<Rightarrow>
             (case float_of a of
                Inl e \<Rightarrow> Inl e
              | Inr x \<Rightarrow> Inr (pd\<lparr>tax := Some (Str_of (round2 (x * (85 / 1000))))\<rparr>)))
      else Inr pd)"

definition shipping_step :: "po_details_dict \<Rightarrow> po_details_dict" where
  "shipping_step pd =
     (if shipping pd = None then pd\<lparr>shipping := Some (Chars ''75.00'')\<rparr> else pd)"

text \<open>\<^verbatim>\<open>float(po.get(key, '0'))\<close>\<close>

definition float_or_zero :: "amount_str option \<Rightarrow> error + rat" where
  "float_or_zero a = (case a of None \<Rightarrow> py_float ''0'' | Some v \<Rightarrow> float_of v)"

definition total_step :: "po_details_dict \<Rightarrow> error + po_details_dict" where
  "total_step pd =
     (if total_amount pd = None then
        (case float_or_zero (subtotal pd) of
           Inl e \<Rightarrow> Inl e
         | Inr sub \<Rightarrow>
        (case float_or_zero (tax pd) of
           Inl e \<Rightarrow> Inl e
         | Inr tx \<Rightarrow>
        (case float_or_zero (shipping pd) of
           Inl e \<Rightarrow> Inl e
         | Inr sh \<Rightarrow> Inr (pd\<lparr>total_amount := Some (Str_of (round2 (sub + tx + sh)))\<rparr>))))
      else Inr pd)"

definition validate_and_clean_data :: "string \<Rightarrow> result \<Rightarrow> error + result" where
  "validate_and_clean_data today r =
     (let pd1 = po_number_step (client_info r) (po_details r);
          pd2 = dates_step today pd1;
          pd3 = payment_terms_step pd2;
          pd4 = subtotal_step (line_items r) pd3
      in case tax_step pd4 of
           Inl e \<Rightarrow> Inl e
         | Inr pd5 \<Rightarrow>
             (case total_step (shipping_step pd5) of
                Inl e \<Rightarrow> Inl e
              | Inr pd7 \<Rightarrow>
                  Inr (r\<lparr>po_details := pd7,
                         line_items :=
                           (if line_items r = [] then [default_line_item] else line_items r)\<rparr>)))"

subsection \<open>Amounts that parse\<close>

text \<open>
  An amount field is harmless for \<^verbatim>\<open>float\<close> when it is absent or holds a string
  that \<^verbatim>\<open>float\<close> accepts.
\<close>

definition parses :: "amount_str option \<Rightarrow> bool" where
  "parses a =
     (case a of
        None \<Rightarrow> True
      | Some v \<Rightarrow> (case float_of v of Inl e \<Rightarrow> False | Inr x \<Rightarrow> True))"

subsection \<open>\<^verbatim>\<open>extract_data\<close>\<close>

definition empty_result :: result where
  "empty_result =
     \<lparr>client_info = empty_client_info, po_details = empty_po_details,
      ship_to = None, line_items = []\<rparr>"

definition extract_data :: "re_search \<Rightarrow> string \<Rightarrow> parsed_document \<Rightarrow> error + result" where
  "extract_data re today parsed_data =
     (let r1 = extract_from_text re (text_of parsed_data) empty_result
      in case (if tables_of parsed_data \<noteq> []
               then extract_from_tables (tables_of parsed_data) (line_items r1)
               else Inr (line_items r1)) of
           Inl e \<Rightarrow> Inl e
         | Inr items \<Rightarrow> validate_and_clean_data today (r1\<lparr>line_items := items\<rparr>))"

section \<open>Properties of the table classifier\<close>

lemma header_match_count_date_note: "header_match_count [''Date'', ''Note''] = 0"
  by (simp add: header_match_count_def header_row_def line_item_headers_def lower_def
      lower_char_def)

lemma header_match_count_sku:
  "header_match_count [''SKU'', ''Description'', ''Qty'', ''Price''] = 3"
  by (simp add: header_match_count_def header_row_def line_item_headers_def lower_def
      lower_char_def)

text \<open>
  Claim C8. Of a table headed \<^verbatim>\<open>["Date","Note"]\<close> and a table headed
  \<^verbatim>\<open>["SKU","Description","Qty","Price"]\<close>, the classifier returns the second one,
  whatever data rows \<open>rows1\<close> and \<open>rows2\<close> the two tables have and in whichever order
  they come: the header test runs over all tables before the largest-table fallback.
\<close>

theorem classifier_prefers_header_match:
  "find_line_items_table
     [[''Date'', ''Note''] # rows1, [''SKU'', ''Description'', ''Qty'', ''Price''] # rows2]
     = Some ([''SKU'', ''Description'', ''Qty'', ''Price''] # rows2)
   \<and> find_line_items_table
     [[''SKU'', ''Description'', ''Qty'', ''Price''] # rows2, [''Date'', ''Note''] # rows1]
     = Some ([''SKU'', ''Description'', ''Qty'', ''Price''] # rows2)"
  by (simp add: find_line_items_table_def header_match_count_date_note header_match_count_sku)

lemma largest_table_loop_Some: "largest_table_loop ts m (Some t) \<noteq> None"
  by (induction ts arbitrary: m t) auto

lemma largest_table_loop_None:
  "(largest_table_loop ts m None = None) = (\<forall>t\<in>set ts. t = [] \<or> length t \<le> m)"
  by (induction ts arbitrary: m) (auto simp: largest_table_loop_Some)

lemma first_header_match_Some: "first_header_match ts = Some t \<Longrightarrow> t \<in> set ts \<and> t \<noteq> []"
  by (induction ts rule: first_header_match.induct) (auto split: if_splits)

lemma find_line_items_table_None: "(find_line_items_table ts = None) = (\<forall>t\<in>set ts. t = [])"
  by (auto simp: find_line_items_table_def largest_table_loop_None split: option.splits
      dest: first_header_match_Some)

lemma largest_table_loop_result:
  "largest_table_loop ts m acc = Some t \<Longrightarrow>
     (acc = Some t \<and> (\<forall>u\<in>set ts. length u \<le> m)) \<or>
     (\<exists>pre post. ts = pre @ t # post \<and> m < length t \<and>
        (\<forall>u\<in>set pre. length u < length t) \<and> (\<forall>u\<in>set post. length u \<le> length t))"
proof (induction ts arbitrary: m acc)
  case Nil
  then show ?case by simp
next
  case (Cons a ts)
  show ?case
  proof (cases "a \<noteq> [] \<and> length a > m")
    case True
    with Cons.prems have "largest_table_loop ts (length a) (Some a) = Some t" by simp
    from Cons.IH[OF this] show ?thesis
    proof
      assume h: "Some a = Some t \<and> (\<forall>u\<in>set ts. length u \<le> length a)"
      then have "a # ts = [] @ t # ts \<and> m < length t \<and> (\<forall>u\<in>set []. length u < length t) \<and> (\<forall>u\<in>set ts. length u \<le> length t)"
        using True by auto
      then show ?thesis by blast
    next
      assume "\<exists>pre post. ts = pre @ t # post \<and> length a < length t \<and>
        (\<forall>u\<in>set pre. length u < length t) \<and> (\<forall>u\<in>set post. length u \<le> length t)"
      then obtain pre post where p: "ts = pre @ t # post" "length a < length t"
        "\<forall>u\<in>set pre. length u < length t" "\<forall>u\<in>set post. length u \<le> length t" by blast
      then have "a # ts = (a # pre) @ t # post \<and> m < length t \<and> (\<forall>u\<in>set (a # pre). length u < length t) \<and> (\<forall>u\<in>set post. length u \<le> length t)"
        using True by simp
      then show ?thesis by blast
    qed
  next
    case False
    then have le: "length a \<le> m" by (cases a) auto
    from False Cons.prems have "largest_table_loop ts m acc = Some t" by auto
    from Cons.IH[OF this] show ?thesis
    proof
      assume "acc = Some t \<and> (\<forall>u\<in>set ts. length u \<le> m)"
      then show ?thesis using le by simp
    next
      assume "\<exists>pre post. ts = pre @ t # post \<and> m < length t \<and>
        (\<forall>u\<in>set pre. length u < length t) \<and> (\<forall>u\<in>set post. length u \<le> length t)"
      then obtain pre post where p: "ts = pre @ t # post" "m < length t"
        "\<forall>u\<in>set pre. length u < length t" "\<forall>u\<in>set post. length u \<le> length t" by blast
      then have "a # ts = (a # pre) @ t # post \<and> m < length t \<and> (\<forall>u\<in>set (a # pre). length u < length t) \<and> (\<forall>u\<in>set post. length u \<le> length t)"
        using le by simp
      then show ?thesis by blast
    qed
  qed
qed

text \<open>
  Claim C3, as the code has it. The classifier returns nothing exactly when every table of
  the collection has no rows, which includes the empty collection but is not limited to
  it: the fallback loop skips empty tables (\<^verbatim>\<open>if table and len(table) > max_rows\<close>).
  When no non-empty table passes the header test and some table has rows, it returns the
  first table with the greatest number of rows: every table before it is strictly
  shorter, every table after it at most as long.
\<close>

theorem classifier_fallback:
  "(find_line_items_table ts = None \<longleftrightarrow> (\<forall>t\<in>set ts. t = [])) \<and>
   (first_header_match ts = None \<and> (\<exists>t\<in>set ts. t \<noteq> []) \<longrightarrow>
      (\<exists>t pre post. find_line_items_table ts = Some t \<and> ts = pre @ t # post \<and>
         (\<forall>u\<in>set pre. length u < length t) \<and> (\<forall>u\<in>set post. length u \<le> length t)))"
proof (intro conjI impI)
  show "find_line_items_table ts = None \<longleftrightarrow> (\<forall>t\<in>set ts. t = [])" by (rule find_line_items_table_None)
next
  assume a: "first_header_match ts = None \<and> (\<exists>t\<in>set ts. t \<noteq> [])"
  then have "find_line_items_table ts \<noteq> None" by (simp add: find_line_items_table_None)
  then obtain t where t: "find_line_items_table ts = Some t" by blast
  with a have "largest_table_loop ts 0 None = Some t" by (simp add: find_line_items_table_def)
  from largest_table_loop_result[OF this] t
  show "\<exists>t pre post. find_line_items_table ts = Some t \<and> ts = pre @ t # post \<and>
         (\<forall>u\<in>set pre. length u < length t) \<and> (\<forall>u\<in>set post. length u \<le> length t)"
    by auto
qed

text \<open>
  The claim as stated fails on the non-empty collection that holds one table without
  rows: no table meets the threshold and nothing is returned.
\<close>

theorem classifier_empty_tables_counterexample:
  "[[]] \<noteq> ([] :: table list) \<and> first_header_match [[]] = None \<and> find_line_items_table [[]] = None"
  by (simp add: find_line_items_table_def)

text \<open>
  The theorem at a collection of four tables, none with a matching header: the first of
  the two 2-row tables is returned; and at a collection of two empty tables.
\<close>

theorem classifier_fallback_witness:
  "find_line_items_table [[], [[''Date'', ''Note'']], [[''Date'', ''Note''], [''a'', ''b'']], [[''Date'', ''Note''], [''c'', ''d'']]]
     = Some [[''Date'', ''Note''], [''a'', ''b'']]
   \<and> first_header_match [[], [[''Date'', ''Note'']], [[''Date'', ''Note''], [''a'', ''b'']], [[''Date'', ''Note''], [''c'', ''d'']]] = None
   \<and> find_line_items_table [[], []] = None"
  using classifier_fallback[of "[[], [[''Date'', ''Note'']], [[''Date'', ''Note''], [''a'', ''b'']], [[''Date'', ''Note''], [''c'', ''d'']]]"]
    classifier_fallback[of "[[], []]"]
  by (simp add: find_line_items_table_def header_match_count_date_note)


section \<open>Properties of the completion step\<close>

lemma po_number_step_id: "po_number pd \<noteq> None \<Longrightarrow> po_number_step ci pd = pd"
  by (auto simp: po_number_step_def)

lemma dates_step_id:
  "creation_date pd \<noteq> None \<Longrightarrow> due_date pd \<noteq> None \<Longrightarrow> dates_step today pd = pd"
  by (auto simp: dates_step_def)

lemma payment_terms_step_id: "payment_terms pd \<noteq> None \<Longrightarrow> payment_terms_step pd = pd"
  by (auto simp: payment_terms_step_def)

lemma subtotal_step_id: "subtotal pd \<noteq> None \<Longrightarrow> subtotal_step items pd = pd"
  by (auto simp: subtotal_step_def)

lemma tax_step_id: "tax pd \<noteq> None \<Longrightarrow> tax_step pd = Inr pd"
  by (auto simp: tax_step_def)

lemma shipping_step_id: "shipping pd \<noteq> None \<Longrightarrow> shipping_step pd = pd"
  by (auto simp: shipping_step_def)

lemma total_step_id: "total_amount pd \<noteq> None \<Longrightarrow> total_step pd = Inr pd"
  by (auto simp: total_step_def)

text \<open>
  Claim C4. On a record in which the PO number, both dates, the payment terms, subtotal,
  tax, shipping and total amount are all present and \<open>line_items\<close> is not empty,
  \<open>validate_and_clean_data\<close> returns the very same record: nothing is overwritten and
  no line item is appended.
\<close>

theorem validate_idempotent_on_complete:
  assumes "po_number (po_details r) \<noteq> None" and "creation_date (po_details r) \<noteq> None"
    and "due_date (po_details r) \<noteq> None" and "payment_terms (po_details r) \<noteq> None"
    and "subtotal (po_details r) \<noteq> None" and "tax (po_details r) \<noteq> None"
    and "shipping (po_details r) \<noteq> None" and "total_amount (po_details r) \<noteq> None"
    and "line_items r \<noteq> []"
  shows "validate_and_clean_data today r = Inr r"
  using assms
  by (simp add: validate_and_clean_data_def po_number_step_id dates_step_id
      payment_terms_step_id subtotal_step_id tax_step_id shipping_step_id total_step_id)


end
